theory Spec2Isabelle
  imports Main "HOL-Library.AList"
begin

section \<open>The agent lifecycle of agentuniverse/agent/agent.py\<close>

text \<open>
  The module defines the abstract class \<open>Agent\<close>: a fixed run sequence
  (\<open>input_check\<close>, \<open>pre_parse_input\<close>, \<open>execute\<close>, \<open>parse_result\<close>,
  \<open>output_check\<close>) around four methods that every concrete agent supplies, an
  identifier (\<open>get_instance_code\<close>) and an adapter for a tool framework
  (\<open>langchain_run\<close>). The embedding keeps the names of the source. Exceptions are
  values (\<open>Inl\<close> of a sum), the effects on collaborators (the planner registry, the
  planner, the logger) are recorded in a trace that is passed along, and dictionaries are
  association lists read through \<open>map_of\<close> and written through \<open>AList.update\<close>.
\<close>

subsection \<open>Python values\<close>

text \<open>
  The values the lifecycle moves around: keyword arguments, dictionary entries, the JSON
  values a tool input parses to, planner results. Dictionary keys are strings (keyword
  names and JSON object keys are). Floats, tuples and sets are not modelled.
\<close>

datatype pyval =
    PNone
  | PBool bool
  | PInt int
  | PStr string
  | PList "pyval list"
  | PDict "(string \<times> pyval) list"

type_synonym pydict = "(string \<times> pyval) list"

text \<open>Truth value testing, as \<open>bool(x)\<close> does it, and \<open>x or y\<close>.\<close>

fun truthy :: "pyval \<Rightarrow> bool" where
  "truthy PNone = False"
| "truthy (PBool b) = b"
| "truthy (PInt i) = (i \<noteq> 0)"
| "truthy (PStr s) = (s \<noteq> [])"
| "truthy (PList xs) = (xs \<noteq> [])"
| "truthy (PDict d) = (d \<noteq> [])"

definition py_or :: "pyval \<Rightarrow> pyval \<Rightarrow> pyval" where
  "py_or x y = (if truthy x then x else y)"

text \<open>\<open>key in d.keys()\<close>, \<open>d.get(key)\<close> and \<open>d[key] = value\<close>.\<close>

definition dict_has :: "pydict \<Rightarrow> string \<Rightarrow> bool" where
  "dict_has d key = (map_of d key \<noteq> None)"

definition dict_get :: "pydict \<Rightarrow> string \<Rightarrow> pyval" where
  "dict_get d key = (case map_of d key of None \<Rightarrow> PNone | Some v \<Rightarrow> v)"

definition dict_set :: "pydict \<Rightarrow> string \<Rightarrow> pyval \<Rightarrow> pydict" where
  "dict_set d key v = AList.update key v d"

text \<open>The name of a value's type, as it appears in the message of an AttributeError.\<close>

fun type_name :: "pyval \<Rightarrow> string" where
  "type_name PNone = ''NoneType''"
| "type_name (PBool b) = ''bool''"
| "type_name (PInt i) = ''int''"
| "type_name (PStr s) = ''str''"
| "type_name (PList xs) = ''list''"
| "type_name (PDict d) = ''dict''"

subsection \<open>Exceptions\<close>

text \<open>
  An exception is its class and its message (\<open>str(e)\<close>). The module itself raises only
  the built-in \<open>Exception\<close>; the interpreter raises \<open>TypeError\<close> and
  \<open>AttributeError\<close>; collaborators and subclasses raise what they like.
\<close>

datatype exc_class = Exception | TypeError | AttributeError | OtherError string

datatype error = Raise exc_class string

fun str_of_error :: "error \<Rightarrow> string" where
  "str_of_error (Raise c msg) = msg"

definition no_attribute :: "pyval \<Rightarrow> string \<Rightarrow> error" where
  "no_attribute v attr =
     Raise AttributeError
       ([CHR 0x27] @ type_name v @ [CHR 0x27] @ '' object has no attribute '' @
        [CHR 0x27] @ attr @ [CHR 0x27])"

subsection \<open>The data model\<close>

text \<open>
  \<open>AgentModel\<close>, \<open>InputObject\<close> and \<open>OutputObject\<close> are imported by the module
  and defined elsewhere in the repository.
\<close>

text \<open>
  Modelled from the spec: the class \<open>AgentModel\<close>, a static descriptor with the
  sections info, profile, plan, memory and action, each an optional dictionary.
\<close>

record agent_model =
  info :: "pydict option"
  profile :: "pydict option"
  plan :: "pydict option"
  memory :: "pydict option"
  action :: "pydict option"

text \<open>
  Modelled from the spec: the class \<open>InputObject\<close>, a mapping from string keys to
  values built from the keyword arguments of one call, with the read-only accessor
  \<open>get_data(key)\<close> that returns the value or None when the key is absent.
\<close>

datatype input_object = InputObject pydict

fun get_data :: "input_object \<Rightarrow> string \<Rightarrow> pyval" where
  "get_data (InputObject params) key = dict_get params key"

text \<open>
  Modelled from the spec: the class \<open>OutputObject\<close>, which wraps the final parsed
  result and reads it with \<open>get_data(key)\<close>. \<open>run\<close> constructs it only after
  \<open>output_check\<close> has accepted the result, so the wrapped value is a dictionary
  whenever an \<open>OutputObject\<close> exists.
\<close>

datatype output_object = OutputObject pyval

fun output_get_data :: "output_object \<Rightarrow> string \<Rightarrow> pyval" where
  "output_get_data (OutputObject (PDict params)) key = dict_get params key"
| "output_get_data (OutputObject v) key = PNone"

subsection \<open>Collaborators and the world\<close>

text \<open>
  A planner's \<open>invoke(agent_model, agent_input, input_object)\<close>. Its first argument
  here is everything outside the call that a planner may read (a language model's
  answer, randomness); a deterministic planner ignores it.
\<close>

type_synonym planner = "nat \<Rightarrow> agent_model \<Rightarrow> pydict \<Rightarrow> input_object \<Rightarrow> error + pyval"


datatype event =
    GetInstanceObj pyval
  | PlannerInvoke agent_model pydict input_object
  | LogError string

record datetime =
  year :: nat
  month :: nat
  day :: nat

text \<open>
  What the module reads from outside itself and what it does to the outside.
  \<open>now\<close> is \<open>datetime.now()\<close>; \<open>base_info_appname\<close> is the field of that name of
  \<open>ApplicationConfigManager().app_configer\<close>; \<open>planner_registry\<close> is
  \<open>PlannerManager().get_instance_obj\<close>, \<open>None\<close> when it returns no planner (the
  call of \<open>invoke\<close> on it then raises); \<open>parse_json_markdown\<close> is the function of
  langchain_core; \<open>py_repr\<close> is the built-in \<open>repr\<close>; \<open>ambient\<close> is handed
  to planners. \<open>trace\<close> lists the registry lookups, planner invocations and
  \<open>LOGGER.error\<close> calls made so far.
\<close>

record world =
  now :: datetime
  base_info_appname :: pyval
  planner_registry :: "pyval \<Rightarrow> planner option"
  parse_json_markdown :: "string \<Rightarrow> error + pyval"
  py_repr :: "pyval \<Rightarrow> string"
  ambient :: nat
  trace :: "event list"

definition emit :: "event list \<Rightarrow> world \<Rightarrow> world" where
  "emit evs w = w\<lparr>trace := trace w @ evs\<rparr>"

text \<open>
  \<open>str(x)\<close>, which an f-string applies to a replacement field: a string is itself,
  and for None, booleans, integers, lists and dictionaries \<open>str\<close> is \<open>repr\<close>.
\<close>

definition py_str :: "world \<Rightarrow> pyval \<Rightarrow> string" where
  "py_str w v = (case v of PStr s \<Rightarrow> s | _ \<Rightarrow> py_repr w v)"

text \<open>\<open>strftime('%Y-%m-%d')\<close>: the year on four digits, month and day on two.\<close>

definition digit :: "nat \<Rightarrow> char" where
  "digit n = ''0123456789'' ! (n mod 10)"

definition strftime_Ymd :: "datetime \<Rightarrow> string" where
  "strftime_Ymd d =
     [digit (year d div 1000), digit (year d div 100), digit (year d div 10), digit (year d)] @
     ''-'' @ [digit (month d div 10), digit (month d)] @
     ''-'' @ [digit (day d div 10), digit (day d)]"

text \<open>\<open>str.lower()\<close> on ASCII letters; other characters are kept.\<close>

definition lower_char :: "char \<Rightarrow> char" where
  "lower_char c =
     (case map_of (zip ''ABCDEFGHIJKLMNOPQRSTUVWXYZ'' ''abcdefghijklmnopqrstuvwxyz'') c of
        None \<Rightarrow> c
      | Some l \<Rightarrow> l)"

definition lower :: "string \<Rightarrow> string" where
  "lower s = map lower_char s"

subsection \<open>The class Agent\<close>

text \<open>
  A concrete agent: the attribute \<open>agent_model\<close> (None until
  \<open>initialize_by_component_configer\<close> sets it), the value of its component type
  (\<open>ComponentEnum.AGENT.value\<close>, set by \<open>__init__\<close>; the enumeration is defined
  elsewhere), and its implementations of the four abstract methods.
  \<open>parse_input(input_object, agent_input)\<close> receives a mutable dictionary: it yields
  the dictionary as the call leaves it, together with the value the call returns.
\<close>

record agent =
  agent_model :: "agent_model option"
  component_type :: string
  input_keys :: "string list"
  output_keys :: "string list"
  parse_input :: "input_object \<Rightarrow> pydict \<Rightarrow> error + (pydict \<times> pyval)"
  parse_result :: "pyval \<Rightarrow> error + pyval"

text \<open>\<open>input_check\<close>: the loop over \<open>self.input_keys()\<close>.\<close>

fun input_check_loop :: "string list \<Rightarrow> pydict \<Rightarrow> error + unit" where
  "input_check_loop [] kwargs = Inr ()"
| "input_check_loop (key # keys) kwargs =
     (if \<not> dict_has kwargs key
      then Inl (Raise Exception (''Input must have key: '' @ key @ ''.''))
      else input_check_loop keys kwargs)"

definition input_check :: "agent \<Rightarrow> pydict \<Rightarrow> error + unit" where
  "input_check a kwargs = input_check_loop (input_keys a) kwargs"

text \<open>\<open>output_check\<close>: the type test, then the loop over \<open>self.output_keys()\<close>.\<close>

fun output_check_loop :: "string list \<Rightarrow> pydict \<Rightarrow> error + unit" where
  "output_check_loop [] kwargs = Inr ()"
| "output_check_loop (key # keys) kwargs =
     (if \<not> dict_has kwargs key
      then Inl (Raise Exception (''Output must have key: '' @ key @ ''.''))
      else output_check_loop keys kwargs)"

fun output_check :: "agent \<Rightarrow> pyval \<Rightarrow> error + unit" where
  "output_check a (PDict kwargs) = output_check_loop (output_keys a) kwargs"
| "output_check a v = Inl (Raise Exception ''Output type must be dict.'')"

text \<open>
  \<open>pre_parse_input\<close>. The four assignments to the fresh dictionary are
  \<open>standard_fields\<close>; the call of the subclass's \<open>parse_input\<close> follows, and what
  is returned is the dictionary object that was passed to it, not the call's value.
\<close>

definition standard_fields :: "world \<Rightarrow> input_object \<Rightarrow> pydict" where
  "standard_fields w input_object =
     (let agent_input = [];
          agent_input = dict_set agent_input ''chat_history''
                          (py_or (get_data input_object ''chat_history'') (PStr ''''));
          agent_input = dict_set agent_input ''background''
                          (py_or (get_data input_object ''background'') (PStr ''''));
          agent_input = dict_set agent_input ''image_urls''
                          (py_or (get_data input_object ''image_urls'') (PList []));
          agent_input = dict_set agent_input ''date'' (PStr (strftime_Ymd (now w)))
      in agent_input)"

definition pre_parse_input :: "agent \<Rightarrow> world \<Rightarrow> input_object \<Rightarrow> error + pydict" where
  "pre_parse_input a w input_object =
     (case parse_input a input_object (standard_fields w input_object) of
        Inl e \<Rightarrow> Inl e
      | Inr (agent_input, returned) \<Rightarrow> Inr agent_input)"

text \<open>
  \<open>execute\<close>: \<open>self.agent_model.plan.get('planner').get('name')\<close>, the registry
  lookup and the invocation. Each attribute access on None, and \<open>.get\<close> on a value
  that is not a dictionary, raises AttributeError.
\<close>

definition execute ::
  "agent \<Rightarrow> world \<Rightarrow> input_object \<Rightarrow> pydict \<Rightarrow> (error + pyval) \<times> world" where
  "execute a w input_object agent_input =
     (case agent_model a of
        None \<Rightarrow> (Inl (no_attribute PNone ''plan''), w)
      | Some m \<Rightarrow>
          (case plan m of
             None \<Rightarrow> (Inl (no_attribute PNone ''get''), w)
           | Some p \<Rightarrow>
               (case dict_get p ''planner'' of
                  PDict pl \<Rightarrow>
                    (let name = dict_get pl ''name'';
                         w1 = emit [GetInstanceObj name] w
                     in case planner_registry w name of
                          None \<Rightarrow> (Inl (no_attribute PNone ''invoke''), w1)
                        | Some planner_base \<Rightarrow>
                            (planner_base (ambient w) m agent_input input_object,
                             emit [PlannerInvoke m agent_input input_object] w1))
                | v \<Rightarrow> (Inl (no_attribute v ''get''), w))))"

text \<open>\<open>run\<close>: the lifecycle. An exception of any step ends it.\<close>

definition run :: "agent \<Rightarrow> world \<Rightarrow> pydict \<Rightarrow> (error + output_object) \<times> world" where
  "run a w kwargs =
     (case input_check a kwargs of
        Inl e \<Rightarrow> (Inl e, w)
      | Inr u \<Rightarrow>
          (let input_object = InputObject kwargs in
           case pre_parse_input a w input_object of
             Inl e \<Rightarrow> (Inl e, w)
           | Inr agent_input \<Rightarrow>
               (case execute a w input_object agent_input of
                  (Inl e, w') \<Rightarrow> (Inl e, w')
                | (Inr planner_result, w') \<Rightarrow>
                    (case parse_result a planner_result of
                       Inl e \<Rightarrow> (Inl e, w')
                     | Inr agent_result \<Rightarrow>
                         (case output_check a agent_result of
                            Inl e \<Rightarrow> (Inl e, w')
                          | Inr u' \<Rightarrow> (Inr (OutputObject agent_result), w'))))))"

text \<open>
  \<open>get_instance_code\<close>: the f-string of the application name, the lower-cased value
  of the component type and \<open>self.agent_model.info.get('name')\<close>.
\<close>

definition get_instance_code :: "agent \<Rightarrow> world \<Rightarrow> error + string" where
  "get_instance_code a w =
     (let appname = base_info_appname w in
      case agent_model a of
        None \<Rightarrow> Inl (no_attribute PNone ''info'')
      | Some m \<Rightarrow>
          (case info m of
             None \<Rightarrow> Inl (no_attribute PNone ''get'')
           | Some i \<Rightarrow>
               (let name = dict_get i ''name'' in
                Inr (py_str w appname @ ''.'' @ lower (component_type a) @ ''.'' @
                     py_str w name))))"

text \<open>
  The call \<open>self.run(**parse_result, callbacks=callbacks, **kwargs)\<close> binds keyword
  arguments before \<open>run\<close> starts: the value after \<open>**\<close> must be a mapping, and a
  keyword given twice (or named \<open>self\<close>, which the bound method already supplies) is a
  TypeError. The interpreter's messages are shortened here.
\<close>

definition call_kwargs :: "pyval \<Rightarrow> pyval \<Rightarrow> pydict \<Rightarrow> error + pydict" where
  "call_kwargs parsed callbacks kwargs =
     (case parsed of
        PDict d \<Rightarrow>
          (let merged = d @ [(''callbacks'', callbacks)] @ kwargs in
           if distinct (map fst merged) \<and> \<not> dict_has merged ''self''
           then Inr merged
           else Inl (Raise TypeError ''run() got multiple values for keyword argument'')
          )
      | v \<Rightarrow> Inl (Raise TypeError
                 (''argument after ** must be a mapping, not '' @ type_name v)))"

text \<open>The loop of \<open>langchain_run\<close> that projects the output on \<open>output_keys()\<close>.\<close>

fun result_dict_loop :: "string list \<Rightarrow> output_object \<Rightarrow> pydict \<Rightarrow> pydict" where
  "result_dict_loop [] output_object result_dict = result_dict"
| "result_dict_loop (key # keys) output_object result_dict =
     result_dict_loop keys output_object
       (dict_set result_dict key (output_get_data output_object key))"

definition langchain_run ::
  "agent \<Rightarrow> world \<Rightarrow> string \<Rightarrow> pyval \<Rightarrow> pydict \<Rightarrow> (error + pyval) \<times> world" where
  "langchain_run a w input callbacks kwargs =
     (case parse_json_markdown w input of
        Inl e \<Rightarrow>
          (Inr (PStr ''Error , Your Action Input is not a valid JSON string''),
           emit [LogError (''langchain run parse_json_markdown error,input(parse_result) error(''
                           @ str_of_error e @ '')'')] w)
      | Inr parsed \<Rightarrow>
          (case call_kwargs parsed callbacks kwargs of
             Inl e \<Rightarrow> (Inl e, w)
           | Inr kw \<Rightarrow>
               (case run a w kw of
                  (Inl e, w') \<Rightarrow> (Inl e, w')
                | (Inr output_object, w') \<Rightarrow>
                    (Inr (PDict (result_dict_loop (output_keys a) output_object [])), w'))))"


subsection \<open>Methods that receive self\<close>









subsection \<open>A concrete agent and its surroundings\<close>

text \<open>
  The scenario of the specification: an agent that requires \<open>query\<close> and promises
  \<open>answer\<close>, run against a planner stub that always answers \<open>hello\<close>. Its
  \<open>parse_input\<close> stores the query in the mapping it is given and returns that mapping.
\<close>

definition example_planner :: planner where
  "example_planner s m agent_input input_object = Inr (PDict [(''answer'', PStr ''hello'')])"

definition example_model :: agent_model where
  "example_model =
     \<lparr>info = Some [(''name'', PStr ''demo_agent''), (''description'', PStr ''a demo'')],
      profile = Some [],
      plan = Some [(''planner'', PDict [(''name'', PStr ''stub_planner'')])],
      memory = Some [],
      action = Some []\<rparr>"

definition example_agent :: agent where
  "example_agent =
     \<lparr>agent_model = Some example_model,
      component_type = ''AGENT'',
      input_keys = [''query''],
      output_keys = [''answer''],
      parse_input = (\<lambda>input_object agent_input.
         let agent_input = dict_set agent_input ''input'' (get_data input_object ''query'')
         in Inr (agent_input, PDict agent_input)),
      parse_result = (\<lambda>planner_result. Inr planner_result)\<rparr>"

text \<open>A variant whose \<open>parse_input\<close> builds a new mapping and leaves its argument alone.\<close>

definition fresh_agent :: agent where
  "fresh_agent =
     example_agent\<lparr>parse_input := (\<lambda>input_object agent_input.
        Inr (agent_input, PDict [(''input'', get_data input_object ''query'')]))\<rparr>"

text \<open>A variant whose \<open>parse_result\<close> renames the answer, so the declared key is missing.\<close>

definition careless_agent :: agent where
  "careless_agent =
     example_agent\<lparr>parse_result := (\<lambda>planner_result. Inr (PDict [(''text'', PStr ''hello'')]))\<rparr>"

definition example_world :: world where
  "example_world =
     \<lparr>now = \<lparr>year = 2024, month = 3, day = 12\<rparr>,
      base_info_appname = PStr ''demo_app'',
      planner_registry =
        (\<lambda>name. if name = PStr ''stub_planner'' then Some example_planner else None),
      parse_json_markdown =
        (\<lambda>s. if s = ''{\"query\": \"hi\"}'' then Inr (PDict [(''query'', PStr ''hi'')])
             else Inl (Raise (OtherError ''JSONDecodeError'') ''Expecting value'')),
      py_repr = (\<lambda>v. ''None''),
      ambient = 0,
      trace = []\<rparr>"







lemmas example_defs =
  example_planner_def example_model_def example_agent_def fresh_agent_def
  careless_agent_def example_world_def

lemmas model_defs =
  run_def input_check_def pre_parse_input_def standard_fields_def execute_def
  langchain_run_def call_kwargs_def get_instance_code_def
  dict_has_def dict_get_def dict_set_def py_or_def py_str_def emit_def
  strftime_Ymd_def digit_def lower_def lower_char_def no_attribute_def Let_def


section \<open>Properties\<close>

subsection \<open>The two checks\<close>

lemma input_check_loop_ok:
  "(input_check_loop keys kwargs = Inr ()) = (\<forall>key\<in>set keys. dict_has kwargs key)"
  by (induction keys) auto

lemma input_check_loop_fail:
  "\<exists>key\<in>set keys. \<not> dict_has kwargs key \<Longrightarrow>
   \<exists>key\<in>set keys. \<not> dict_has kwargs key \<and>
     input_check_loop keys kwargs = Inl (Raise Exception (''Input must have key: '' @ key @ ''.''))"
  by (induction keys) auto

lemma output_check_loop_ok:
  "(output_check_loop keys kwargs = Inr ()) = (\<forall>key\<in>set keys. dict_has kwargs key)"
  by (induction keys) auto

lemma output_check_loop_fail:
  "\<exists>key\<in>set keys. \<not> dict_has kwargs key \<Longrightarrow>
   \<exists>key\<in>set keys. \<not> dict_has kwargs key \<and>
     output_check_loop keys kwargs = Inl (Raise Exception (''Output must have key: '' @ key @ ''.''))"
  by (induction keys) auto

lemma output_check_ok:
  "(output_check a v = Inr ()) =
   (\<exists>d. v = PDict d \<and> (\<forall>key\<in>set (output_keys a). dict_has d key))"
  by (cases v) (simp_all add: output_check_loop_ok)

lemma output_check_not_dict:
  "(\<nexists>d. v = PDict d) \<Longrightarrow> output_check a v = Inl (Raise Exception ''Output type must be dict.'')"
  by (cases v) simp_all

subsection \<open>The standard fields\<close>

lemma map_of_standard_fields:
  "map_of (standard_fields w io) ''chat_history'' = Some (py_or (get_data io ''chat_history'') (PStr ''''))"
  "map_of (standard_fields w io) ''background'' = Some (py_or (get_data io ''background'') (PStr ''''))"
  "map_of (standard_fields w io) ''image_urls'' = Some (py_or (get_data io ''image_urls'') (PList []))"
  "map_of (standard_fields w io) ''date'' = Some (PStr (strftime_Ymd (now w)))"
  by (simp_all add: standard_fields_def dict_set_def)

lemma keys_standard_fields:
  "map fst (standard_fields w io) = [''chat_history'', ''background'', ''image_urls'', ''date'']"
  by (simp add: standard_fields_def dict_set_def)

subsection \<open>What execute and run do to the world\<close>

lemma emit_Nil: "emit [] w = w"
  by (simp add: emit_def)

lemma emit_emit: "emit ys (emit xs w) = emit (xs @ ys) w"
  by (simp add: emit_def)

lemma execute_trace:
  "\<exists>evs. snd (execute a w io ai) = emit evs w \<and>
         (\<forall>m ai' io'. PlannerInvoke m ai' io' \<in> set evs \<longrightarrow> ai' = ai)"
proof (cases "agent_model a")
  case None
  then have "snd (execute a w io ai) = emit [] w"
    by (simp add: execute_def emit_Nil)
  then show ?thesis by (intro exI[of _ "[]"]) simp
next
  case (Some m)
  show ?thesis
  proof (cases "plan m")
    case None
    with Some have "snd (execute a w io ai) = emit [] w"
      by (simp add: execute_def emit_Nil)
    then show ?thesis by (intro exI[of _ "[]"]) simp
  next
    case (Some p)
    note plan = this
    show ?thesis
    proof (cases "\<exists>pl. dict_get p ''planner'' = PDict pl")
      case False
      with \<open>agent_model a = Some m\<close> plan have "snd (execute a w io ai) = emit [] w"
        by (cases "dict_get p ''planner''") (simp_all add: execute_def emit_Nil)
      then show ?thesis by (intro exI[of _ "[]"]) simp
    next
      case True
      then obtain pl where pl: "dict_get p ''planner'' = PDict pl" by blast
      let ?name = "dict_get pl ''name''"
      show ?thesis
      proof (cases "planner_registry w ?name")
        case None
        with \<open>agent_model a = Some m\<close> plan pl
        have "snd (execute a w io ai) = emit [GetInstanceObj ?name] w"
          by (simp add: execute_def Let_def)
        then show ?thesis by (intro exI[of _ "[GetInstanceObj ?name]"]) simp
      next
        case (Some pb)
        with \<open>agent_model a = Some m\<close> plan pl
        have "snd (execute a w io ai) = emit [GetInstanceObj ?name, PlannerInvoke m ai io] w"
          by (simp add: execute_def Let_def emit_emit)
        then show ?thesis
          by (intro exI[of _ "[GetInstanceObj ?name, PlannerInvoke m ai io]"]) simp
      qed
    qed
  qed
qed

lemma run_trace:
  "\<exists>evs. snd (run a w kwargs) = emit evs w \<and>
     (\<forall>m ai io. PlannerInvoke m ai io \<in> set evs \<longrightarrow>
        pre_parse_input a w (InputObject kwargs) = Inr ai)"
proof (cases "input_check a kwargs")
  case (Inl e)
  then have "snd (run a w kwargs) = emit [] w" by (simp add: run_def emit_Nil)
  then show ?thesis by (intro exI[of _ "[]"]) simp
next
  case (Inr u)
  show ?thesis
  proof (cases "pre_parse_input a w (InputObject kwargs)")
    case (Inl e)
    with Inr have "snd (run a w kwargs) = emit [] w" by (simp add: run_def emit_Nil)
    then show ?thesis by (intro exI[of _ "[]"]) simp
  next
    case (Inr ai)
    from execute_trace[of a w "InputObject kwargs" ai]
    obtain evs where evs: "snd (execute a w (InputObject kwargs) ai) = emit evs w"
      "\<forall>m ai' io'. PlannerInvoke m ai' io' \<in> set evs \<longrightarrow> ai' = ai" by blast
    have "snd (run a w kwargs) = snd (execute a w (InputObject kwargs) ai)"
      using \<open>input_check a kwargs = Inr u\<close> Inr
      by (simp add: run_def split: prod.split sum.split)
    with evs Inr show ?thesis by (intro exI[of _ evs]) simp
  qed
qed

lemma run_input_check_fail:
  "input_check a kwargs = Inl e \<Longrightarrow> run a w kwargs = (Inl e, w)"
  by (simp add: run_def)

subsection \<open>Input validation\<close>

text \<open>
  C1. For every agent and every keyword mapping that lacks a key of \<open>input_keys()\<close>,
  \<open>run\<close> raises the exception of \<open>input_check\<close> (the built-in \<open>Exception\<close> with
  the message \<open>Input must have key: k.\<close> for a missing key \<open>k\<close>, the error the
  specification calls InputValidationError) and leaves the world as it found it: the
  trace gains no registry lookup and no planner invocation.
\<close>

theorem run_missing_input_key:
  assumes "\<exists>key\<in>set (input_keys a). \<not> dict_has kwargs key"
  shows "\<exists>key\<in>set (input_keys a). \<not> dict_has kwargs key \<and>
           run a w kwargs =
             (Inl (Raise Exception (''Input must have key: '' @ key @ ''.'')), w)"
proof -
  from input_check_loop_fail[OF assms]
  obtain key where key: "key \<in> set (input_keys a)" "\<not> dict_has kwargs key"
    "input_check a kwargs = Inl (Raise Exception (''Input must have key: '' @ key @ ''.''))"
    unfolding input_check_def by blast
  from key(3) have "run a w kwargs =
      (Inl (Raise Exception (''Input must have key: '' @ key @ ''.'')), w)"
    by (rule run_input_check_fail)
  with key(1,2) show ?thesis by blast
qed

theorem run_missing_input_key_witness:
  "run example_agent example_world [(''topic'', PStr ''hi'')] =
     (Inl (Raise Exception ''Input must have key: query.''), example_world)"
  using run_missing_input_key[of example_agent "[(''topic'', PStr ''hi'')]" example_world]
  by (simp add: example_agent_def dict_has_def)


subsection \<open>Output validation\<close>

lemma run_reaches_output_check:
  assumes "input_check a kwargs = Inr ()"
      and "pre_parse_input a w (InputObject kwargs) = Inr agent_input"
      and "execute a w (InputObject kwargs) agent_input = (Inr planner_result, w')"
      and "parse_result a planner_result = Inr agent_result"
  shows "run a w kwargs =
           (case output_check a agent_result of
              Inl e \<Rightarrow> (Inl e, w')
            | Inr u \<Rightarrow> (Inr (OutputObject agent_result), w'))"
  using assms by (simp add: run_def)

text \<open>
  C2. When the lifecycle reaches \<open>output_check\<close> with the value \<open>agent_result\<close> that
  \<open>parse_result\<close> produced: if it is not a dictionary, \<open>run\<close> raises
  \<open>Exception('Output type must be dict.')\<close>; if it is a dictionary that lacks a key of
  \<open>output_keys()\<close>, \<open>run\<close> raises \<open>Exception('Output must have key: k.')\<close> for
  a missing key \<open>k\<close> (both are the specification's OutputValidationError); otherwise
  \<open>output_check\<close> accepts it, whatever other keys it has, and \<open>run\<close> returns it
  wrapped.
\<close>

theorem run_output_validation:
  assumes "input_check a kwargs = Inr ()"
      and "pre_parse_input a w (InputObject kwargs) = Inr agent_input"
      and "execute a w (InputObject kwargs) agent_input = (Inr planner_result, w')"
      and "parse_result a planner_result = Inr agent_result"
  shows "((\<nexists>d. agent_result = PDict d) \<longrightarrow>
            run a w kwargs = (Inl (Raise Exception ''Output type must be dict.''), w')) \<and>
         (\<forall>d. agent_result = PDict d \<and> (\<exists>key\<in>set (output_keys a). \<not> dict_has d key) \<longrightarrow>
            (\<exists>key\<in>set (output_keys a). \<not> dict_has d key \<and>
               run a w kwargs =
                 (Inl (Raise Exception (''Output must have key: '' @ key @ ''.'')), w'))) \<and>
         (\<forall>d. agent_result = PDict d \<and> (\<forall>key\<in>set (output_keys a). dict_has d key) \<longrightarrow>
            output_check a agent_result = Inr () \<and>
            run a w kwargs = (Inr (OutputObject agent_result), w'))"
proof (intro conjI allI impI)
  assume "\<nexists>d. agent_result = PDict d"
  then have "output_check a agent_result = Inl (Raise Exception ''Output type must be dict.'')"
    by (rule output_check_not_dict)
  then show "run a w kwargs = (Inl (Raise Exception ''Output type must be dict.''), w')"
    by (simp add: run_reaches_output_check[OF assms])
next
  fix d
  assume d: "agent_result = PDict d \<and> (\<exists>key\<in>set (output_keys a). \<not> dict_has d key)"
  then obtain key where key: "key \<in> set (output_keys a)" "\<not> dict_has d key"
    "output_check_loop (output_keys a) d =
       Inl (Raise Exception (''Output must have key: '' @ key @ ''.''))"
    using output_check_loop_fail[of "output_keys a" d] by blast
  from d key(3) have "run a w kwargs =
      (Inl (Raise Exception (''Output must have key: '' @ key @ ''.'')), w')"
    by (simp add: run_reaches_output_check[OF assms])
  with key(1,2)
  show "\<exists>key\<in>set (output_keys a). \<not> dict_has d key \<and>
          run a w kwargs = (Inl (Raise Exception (''Output must have key: '' @ key @ ''.'')), w')"
    by blast
next
  fix d
  assume d: "agent_result = PDict d \<and> (\<forall>key\<in>set (output_keys a). dict_has d key)"
  then show ok: "output_check a agent_result = Inr ()"
    by (simp add: output_check_loop_ok)
  then show "run a w kwargs = (Inr (OutputObject agent_result), w')"
    by (simp add: run_reaches_output_check[OF assms])
qed

theorem run_output_validation_witness:
  "run careless_agent example_world [(''query'', PStr ''hi'')] =
     (Inl (Raise Exception ''Output must have key: answer.''),
      emit [GetInstanceObj (PStr ''stub_planner''),
            PlannerInvoke example_model
              [(''chat_history'', PStr ''''), (''background'', PStr ''''),
               (''image_urls'', PList []), (''date'', PStr ''2024-03-12''),
               (''input'', PStr ''hi'')]
              (InputObject [(''query'', PStr ''hi'')])] example_world)"
proof -
  let ?kw = "[(''query'', PStr ''hi'')]"
  let ?ai = "[(''chat_history'', PStr ''''), (''background'', PStr ''''),
              (''image_urls'', PList []), (''date'', PStr ''2024-03-12''),
              (''input'', PStr ''hi'')]"
  let ?w' = "emit [GetInstanceObj (PStr ''stub_planner''),
                   PlannerInvoke example_model ?ai (InputObject ?kw)] example_world"
  have 1: "input_check careless_agent ?kw = Inr ()"
    by (simp add: example_defs input_check_def dict_has_def)
  have 2: "pre_parse_input careless_agent example_world (InputObject ?kw) = Inr ?ai"
    by (simp add: example_defs model_defs)
  have 3: "execute careless_agent example_world (InputObject ?kw) ?ai =
             (Inr (PDict [(''answer'', PStr ''hello'')]), ?w')"
    by (simp add: example_defs model_defs)
  have 4: "parse_result careless_agent (PDict [(''answer'', PStr ''hello'')]) =
             Inr (PDict [(''text'', PStr ''hello'')])"
    by (simp add: example_defs)
  from run_output_validation[OF 1 2 3 4] show ?thesis
    by (simp add: example_defs dict_has_def)
qed

text \<open>
  C4. Whenever \<open>run\<close> returns an \<open>OutputObject\<close>, the value it wraps is a
  dictionary that has every key of \<open>output_keys()\<close>; nothing bounds its other keys.
\<close>

theorem run_output_has_keys:
  assumes "run a w kwargs = (Inr (OutputObject v), w')"
  shows "\<exists>d. v = PDict d \<and> (\<forall>key\<in>set (output_keys a). dict_has d key)"
proof -
  from assms have "output_check a v = Inr ()"
    by (auto simp: run_def Let_def split: sum.splits prod.splits)
  then show ?thesis by (simp add: output_check_ok)
qed

theorem run_output_has_keys_witness:
  "run example_agent example_world [(''query'', PStr ''hi''), (''lang'', PStr ''en'')] =
     (Inr (OutputObject (PDict [(''answer'', PStr ''hello'')])),
      emit [GetInstanceObj (PStr ''stub_planner''),
            PlannerInvoke example_model
              [(''chat_history'', PStr ''''), (''background'', PStr ''''),
               (''image_urls'', PList []), (''date'', PStr ''2024-03-12''),
               (''input'', PStr ''hi'')]
              (InputObject [(''query'', PStr ''hi''), (''lang'', PStr ''en'')])] example_world) \<and>
   dict_has [(''answer'', PStr ''hello'')] ''answer''"
proof -
  let ?kw = "[(''query'', PStr ''hi''), (''lang'', PStr ''en'')]"
  let ?ai = "[(''chat_history'', PStr ''''), (''background'', PStr ''''),
              (''image_urls'', PList []), (''date'', PStr ''2024-03-12''),
              (''input'', PStr ''hi'')]"
  let ?w' = "emit [GetInstanceObj (PStr ''stub_planner''),
                   PlannerInvoke example_model ?ai (InputObject ?kw)] example_world"
  have r: "run example_agent example_world ?kw =
             (Inr (OutputObject (PDict [(''answer'', PStr ''hello'')])), ?w')"
    by (simp add: example_defs model_defs)
  from run_output_has_keys[OF r] r show ?thesis
    by (simp add: example_defs)
qed

subsection \<open>The tool adapter\<close>

text \<open>
  C5. When \<open>parse_json_markdown\<close> raises on the input, \<open>langchain_run\<close> does not
  raise: it returns the string
  \<open>Error , Your Action Input is not a valid JSON string\<close>, and the only effect is one
  \<open>LOGGER.error\<close> call whose message carries the text of the exception.
\<close>

theorem langchain_run_parse_failure:
  assumes "parse_json_markdown w input = Inl e"
  shows "langchain_run a w input callbacks kwargs =
           (Inr (PStr ''Error , Your Action Input is not a valid JSON string''),
            emit [LogError (''langchain run parse_json_markdown error,input(parse_result) error(''
                            @ str_of_error e @ '')'')] w)"
  using assms by (simp add: langchain_run_def)

theorem langchain_run_parse_failure_witness:
  "langchain_run example_agent example_world ''hello'' PNone [] =
     (Inr (PStr ''Error , Your Action Input is not a valid JSON string''),
      emit [LogError
              ''langchain run parse_json_markdown error,input(parse_result) error(Expecting value)'']
        example_world)"
proof -
  have "parse_json_markdown example_world ''hello'' =
          Inl (Raise (OtherError ''JSONDecodeError'') ''Expecting value'')"
    by (simp add: example_world_def)
  from langchain_run_parse_failure[OF this, of example_agent PNone "[]"]
  show ?thesis by simp
qed

lemma map_of_result_dict_loop:
  "map_of (result_dict_loop keys output_object result_dict) key =
     (if key \<in> set keys then Some (output_get_data output_object key)
      else map_of result_dict key)"
  by (induction keys arbitrary: result_dict) (auto simp: dict_set_def update_conv')

lemma keys_result_dict_loop:
  "fst ` set (result_dict_loop keys output_object result_dict) =
     set keys \<union> fst ` set result_dict"
  by (induction keys arbitrary: result_dict) (auto simp: dict_set_def dom_update)

lemma distinct_result_dict_loop:
  "distinct (map fst result_dict) \<Longrightarrow>
   distinct (map fst (result_dict_loop keys output_object result_dict))"
  by (induction keys arbitrary: result_dict) (auto simp: dict_set_def distinct_update)

text \<open>
  C6. When the input parses to a value from which the keyword arguments of \<open>run\<close> can
  be built, and that \<open>run\<close> returns an \<open>OutputObject\<close> (so the input had every key
  of \<open>input_keys()\<close>), \<open>langchain_run\<close> returns a dictionary whose keys are exactly
  \<open>output_keys()\<close>, each bound to what the \<open>OutputObject\<close> holds under it.
\<close>

theorem langchain_run_projects_output:
  assumes "parse_json_markdown w input = Inr parsed"
      and "call_kwargs parsed callbacks kwargs = Inr kw"
      and "run a w kw = (Inr output_object, w')"
  shows "\<exists>result_dict.
           langchain_run a w input callbacks kwargs = (Inr (PDict result_dict), w') \<and>
           fst ` set result_dict = set (output_keys a) \<and>
           distinct (map fst result_dict) \<and>
           (\<forall>key\<in>set (output_keys a).
              map_of result_dict key = Some (output_get_data output_object key)) \<and>
           (\<forall>key\<in>set (input_keys a). dict_has kw key)"
proof -
  let ?rd = "result_dict_loop (output_keys a) output_object []"
  have "langchain_run a w input callbacks kwargs = (Inr (PDict ?rd), w')"
    using assms by (simp add: langchain_run_def)
  moreover have "fst ` set ?rd = set (output_keys a)"
    by (simp add: keys_result_dict_loop)
  moreover have "distinct (map fst ?rd)"
    by (simp add: distinct_result_dict_loop)
  moreover have "\<forall>key\<in>set (output_keys a).
      map_of ?rd key = Some (output_get_data output_object key)"
    by (simp add: map_of_result_dict_loop)
  moreover have "\<forall>key\<in>set (input_keys a). dict_has kw key"
  proof -
    have "input_check a kw = Inr ()"
      using assms(3) by (cases "input_check a kw") (auto simp: run_def)
    then show ?thesis by (simp add: input_check_def input_check_loop_ok)
  qed
  ultimately show ?thesis by blast
qed

theorem langchain_run_projects_output_witness:
  "langchain_run example_agent example_world ''{\"query\": \"hi\"}'' PNone [] =
     (Inr (PDict [(''answer'', PStr ''hello'')]),
      emit [GetInstanceObj (PStr ''stub_planner''),
            PlannerInvoke example_model
              [(''chat_history'', PStr ''''), (''background'', PStr ''''),
               (''image_urls'', PList []), (''date'', PStr ''2024-03-12''),
               (''input'', PStr ''hi'')]
              (InputObject [(''query'', PStr ''hi''), (''callbacks'', PNone)])] example_world)"
proof -
  let ?kw = "[(''query'', PStr ''hi''), (''callbacks'', PNone)]"
  let ?ai = "[(''chat_history'', PStr ''''), (''background'', PStr ''''),
              (''image_urls'', PList []), (''date'', PStr ''2024-03-12''),
              (''input'', PStr ''hi'')]"
  let ?w' = "emit [GetInstanceObj (PStr ''stub_planner''),
                   PlannerInvoke example_model ?ai (InputObject ?kw)] example_world"
  let ?out = "OutputObject (PDict [(''answer'', PStr ''hello'')])"
  have 1: "parse_json_markdown example_world ''{\"query\": \"hi\"}'' =
             Inr (PDict [(''query'', PStr ''hi'')])"
    by (simp add: example_world_def)
  have 2: "call_kwargs (PDict [(''query'', PStr ''hi'')]) PNone [] = Inr ?kw"
    by (simp add: call_kwargs_def dict_has_def)
  have 3: "run example_agent example_world ?kw = (Inr ?out, ?w')"
    by (simp add: example_defs model_defs)
  have 4: "langchain_run example_agent example_world ''{\"query\": \"hi\"}'' PNone [] =
             (Inr (PDict (result_dict_loop [''answer''] ?out [])), ?w')"
    using 1 2 3 by (simp add: langchain_run_def example_agent_def)
  have 5: "result_dict_loop [''answer''] ?out [] = [(''answer'', PStr ''hello'')]"
    by (simp add: dict_set_def dict_get_def)
  from langchain_run_projects_output[OF 1 2 3] 4 5 show ?thesis
    by simp
qed

subsection \<open>The instance code\<close>

text \<open>
  C8. For an agent whose model has an info section with a string under \<open>name\<close>, and an
  application name that is a string, \<open>get_instance_code\<close> returns the application
  name, the lower-cased value of the component type and the agent's name, joined by
  dots.
\<close>

theorem get_instance_code_format:
  assumes "agent_model a = Some m"
      and "info m = Some i"
      and "map_of i ''name'' = Some (PStr name)"
      and "base_info_appname w = PStr appname"
  shows "get_instance_code a w =
           Inr (appname @ ''.'' @ lower (component_type a) @ ''.'' @ name)"
  using assms by (simp add: get_instance_code_def dict_get_def py_str_def)

theorem get_instance_code_format_witness:
  "get_instance_code example_agent example_world = Inr ''demo_app.agent.demo_agent''"
proof -
  have 1: "agent_model example_agent = Some example_model"
    by (simp add: example_agent_def)
  have 2: "info example_model =
             Some [(''name'', PStr ''demo_agent''), (''description'', PStr ''a demo'')]"
    by (simp add: example_model_def)
  have 3: "map_of [(''name'', PStr ''demo_agent''), (''description'', PStr ''a demo'')] ''name'' =
             Some (PStr ''demo_agent'')"
    by simp
  have 4: "base_info_appname example_world = PStr ''demo_app''"
    by (simp add: example_world_def)
  from get_instance_code_format[OF 1 2 3 4] show ?thesis
    by (simp add: example_agent_def lower_def lower_char_def)
qed

subsection \<open>Independence of calls\<close>














subsection \<open>Pre-parsing\<close>

lemma pre_parse_input_returns:
  "parse_input a io (standard_fields w io) = Inr (agent_input, returned) \<Longrightarrow>
   pre_parse_input a w io = Inr agent_input"
  by (simp add: pre_parse_input_def)

lemma py_or_get_data:
  "py_or (get_data (InputObject kwargs) key) dflt =
     (if dict_has kwargs key \<and> truthy (dict_get kwargs key) then dict_get kwargs key else dflt)"
  by (auto simp: py_or_def dict_has_def dict_get_def)

text \<open>
  C3, as the code has it. \<open>pre_parse_input\<close> binds \<open>chat_history\<close>,
  \<open>background\<close> and \<open>image_urls\<close> to the value found under that key in the input
  object when the key is present with a truthy value, and to the defaults \<open>""\<close>,
  \<open>""\<close> and \<open>[]\<close> when the key is absent or its value is falsy; it binds
  \<open>date\<close> to the current date formatted by \<open>%Y-%m-%d\<close>. The returned mapping has
  these bindings when the subclass's \<open>parse_input\<close> returns normally and leaves the
  four keys as it received them.
\<close>

theorem pre_parse_input_standard_fields:
  assumes "parse_input a (InputObject kwargs) (standard_fields w (InputObject kwargs)) =
             Inr (agent_input, returned)"
      and "\<forall>key\<in>set [''chat_history'', ''background'', ''image_urls'', ''date''].
             map_of agent_input key = map_of (standard_fields w (InputObject kwargs)) key"
  shows "pre_parse_input a w (InputObject kwargs) = Inr agent_input \<and>
         map_of agent_input ''chat_history'' =
           Some (if dict_has kwargs ''chat_history'' \<and> truthy (dict_get kwargs ''chat_history'')
                 then dict_get kwargs ''chat_history'' else PStr '''') \<and>
         map_of agent_input ''background'' =
           Some (if dict_has kwargs ''background'' \<and> truthy (dict_get kwargs ''background'')
                 then dict_get kwargs ''background'' else PStr '''') \<and>
         map_of agent_input ''image_urls'' =
           Some (if dict_has kwargs ''image_urls'' \<and> truthy (dict_get kwargs ''image_urls'')
                 then dict_get kwargs ''image_urls'' else PList []) \<and>
         map_of agent_input ''date'' = Some (PStr (strftime_Ymd (now w)))"
proof -
  have "pre_parse_input a w (InputObject kwargs) = Inr agent_input"
    using assms(1) by (rule pre_parse_input_returns)
  moreover from assms(2) have
    "map_of agent_input ''chat_history'' =
       map_of (standard_fields w (InputObject kwargs)) ''chat_history''"
    "map_of agent_input ''background'' =
       map_of (standard_fields w (InputObject kwargs)) ''background''"
    "map_of agent_input ''image_urls'' =
       map_of (standard_fields w (InputObject kwargs)) ''image_urls''"
    "map_of agent_input ''date'' = map_of (standard_fields w (InputObject kwargs)) ''date''"
    by simp_all
  ultimately show ?thesis
    by (simp only: map_of_standard_fields py_or_get_data simp_thms)
qed

theorem pre_parse_input_standard_fields_witness:
  "pre_parse_input example_agent example_world
     (InputObject [(''query'', PStr ''hi''), (''background'', PStr ''shop''),
                   (''image_urls'', PStr '''')]) =
     Inr [(''chat_history'', PStr ''''), (''background'', PStr ''shop''),
          (''image_urls'', PList []), (''date'', PStr ''2024-03-12''),
          (''input'', PStr ''hi'')]"
proof -
  let ?kw = "[(''query'', PStr ''hi''), (''background'', PStr ''shop''),
              (''image_urls'', PStr '''')]"
  let ?ai = "[(''chat_history'', PStr ''''), (''background'', PStr ''shop''),
              (''image_urls'', PList []), (''date'', PStr ''2024-03-12''),
              (''input'', PStr ''hi'')]"
  have 1: "parse_input example_agent (InputObject ?kw)
             (standard_fields example_world (InputObject ?kw)) = Inr (?ai, PDict ?ai)"
    by (simp add: example_defs model_defs)
  have 2: "\<forall>key\<in>set [''chat_history'', ''background'', ''image_urls'', ''date''].
             map_of ?ai key = map_of (standard_fields example_world (InputObject ?kw)) key"
    by (simp add: example_defs model_defs)
  from pre_parse_input_standard_fields[OF 1 2] show ?thesis
    by simp
qed

text \<open>
  C3 as the specification words it fails where a key is present with a falsy
  value: with \<open>chat_history=[]\<close> supplied, the returned mapping binds
  \<open>chat_history\<close> to the empty string, not to the supplied empty list.
\<close>

theorem pre_parse_input_present_value_counterexample:
  "dict_has [(''query'', PStr ''hi''), (''chat_history'', PList [])] ''chat_history'' \<and>
   get_data (InputObject [(''query'', PStr ''hi''), (''chat_history'', PList [])])
     ''chat_history'' = PList [] \<and>
   pre_parse_input example_agent example_world
     (InputObject [(''query'', PStr ''hi''), (''chat_history'', PList [])]) =
     Inr [(''chat_history'', PStr ''''), (''background'', PStr ''''),
          (''image_urls'', PList []), (''date'', PStr ''2024-03-12''),
          (''input'', PStr ''hi'')] \<and>
   map_of [(''chat_history'', PStr ''''), (''background'', PStr ''''),
           (''image_urls'', PList []), (''date'', PStr ''2024-03-12''),
           (''input'', PStr ''hi'')] ''chat_history'' \<noteq> Some (PList [])"
  by (simp add: example_defs model_defs)

text \<open>
  C9. When \<open>chat_history\<close>, \<open>background\<close> or \<open>image_urls\<close> is present in the
  input with a falsy value, the mapping that \<open>pre_parse_input\<close> builds and hands to
  \<open>parse_input\<close> binds the key to its default (\<open>[]\<close> for \<open>image_urls\<close>,
  \<open>""\<close> for the other two), not to the supplied value; and so does the mapping it
  returns, whenever \<open>parse_input\<close> returns normally and leaves that key alone.
\<close>

theorem pre_parse_input_falsy_replaced:
  assumes "key \<in> {''chat_history'', ''background'', ''image_urls''}"
      and "dict_has kwargs key"
      and "\<not> truthy (dict_get kwargs key)"
  shows "map_of (standard_fields w (InputObject kwargs)) key =
           Some (if key = ''image_urls'' then PList [] else PStr '''') \<and>
         (\<forall>agent_input returned.
            parse_input a (InputObject kwargs) (standard_fields w (InputObject kwargs)) =
              Inr (agent_input, returned) \<and>
            map_of agent_input key = map_of (standard_fields w (InputObject kwargs)) key \<longrightarrow>
            pre_parse_input a w (InputObject kwargs) = Inr agent_input \<and>
            map_of agent_input key = Some (if key = ''image_urls'' then PList [] else PStr ''''))"
proof -
  have seeded: "map_of (standard_fields w (InputObject kwargs)) key =
                  Some (if key = ''image_urls'' then PList [] else PStr '''')"
  proof -
    have "py_or (get_data (InputObject kwargs) key) dflt = dflt" for dflt
      using assms(3) by (simp add: py_or_def)
    with assms(1) show ?thesis
      by (auto simp only: map_of_standard_fields) simp_all
  qed
  then show ?thesis
    by (simp add: pre_parse_input_returns)
qed

theorem pre_parse_input_falsy_replaced_witness:
  "map_of (standard_fields example_world
             (InputObject [(''query'', PStr ''hi''), (''chat_history'', PInt 0)]))
     ''chat_history'' = Some (PStr '''') \<and>
   pre_parse_input example_agent example_world
     (InputObject [(''query'', PStr ''hi''), (''chat_history'', PInt 0)]) =
     Inr [(''chat_history'', PStr ''''), (''background'', PStr ''''),
          (''image_urls'', PList []), (''date'', PStr ''2024-03-12''),
          (''input'', PStr ''hi'')]"
proof -
  let ?kw = "[(''query'', PStr ''hi''), (''chat_history'', PInt 0)]"
  let ?ai = "[(''chat_history'', PStr ''''), (''background'', PStr ''''),
              (''image_urls'', PList []), (''date'', PStr ''2024-03-12''),
              (''input'', PStr ''hi'')]"
  have 1: "''chat_history'' \<in> {''chat_history'', ''background'', ''image_urls''}"
    by simp
  have 2: "dict_has ?kw ''chat_history''"
    by (simp add: dict_has_def)
  have 3: "\<not> truthy (dict_get ?kw ''chat_history'')"
    by (simp add: dict_get_def)
  have 4: "parse_input example_agent (InputObject ?kw)
             (standard_fields example_world (InputObject ?kw)) = Inr (?ai, PDict ?ai)"
    by (simp add: example_defs model_defs)
  have 5: "map_of ?ai ''chat_history'' = Some (PStr '''')"
    by simp
  from pre_parse_input_falsy_replaced[OF 1 2 3, of example_world example_agent] 4 5
  show ?thesis by simp
qed

text \<open>
  C10. \<open>pre_parse_input\<close> returns the mapping it built, as the call of
  \<open>parse_input\<close> left it; the value that \<open>parse_input\<close> returns plays no part.
  So when \<open>parse_input\<close> does not touch the mapping it is given, the returned
  mapping has the four standard keys and no other, and every planner invocation that
  \<open>run\<close> makes receives exactly that mapping.
\<close>

theorem pre_parse_input_ignores_returned:
  assumes "parse_input a (InputObject kwargs) (standard_fields w (InputObject kwargs)) =
             Inr (agent_input, returned)"
  shows "pre_parse_input a w (InputObject kwargs) = Inr agent_input \<and>
         (agent_input = standard_fields w (InputObject kwargs) \<longrightarrow>
            map fst agent_input = [''chat_history'', ''background'', ''image_urls'', ''date''] \<and>
            (\<exists>evs. snd (run a w kwargs) = emit evs w \<and>
               (\<forall>m ai io. PlannerInvoke m ai io \<in> set evs \<longrightarrow>
                  ai = standard_fields w (InputObject kwargs))))"
proof -
  have ret: "pre_parse_input a w (InputObject kwargs) = Inr agent_input"
    using assms by (rule pre_parse_input_returns)
  from run_trace[of a w kwargs]
  obtain evs where evs: "snd (run a w kwargs) = emit evs w"
    "\<forall>m ai io. PlannerInvoke m ai io \<in> set evs \<longrightarrow>
       pre_parse_input a w (InputObject kwargs) = Inr ai"
    by blast
  from evs(2) ret have "\<forall>m ai io. PlannerInvoke m ai io \<in> set evs \<longrightarrow> ai = agent_input"
    by simp
  with evs(1) ret show ?thesis
    by (auto simp: keys_standard_fields)
qed

theorem pre_parse_input_ignores_returned_witness:
  "pre_parse_input fresh_agent example_world (InputObject [(''query'', PStr ''hi'')]) =
     Inr [(''chat_history'', PStr ''''), (''background'', PStr ''''),
          (''image_urls'', PList []), (''date'', PStr ''2024-03-12'')] \<and>
   snd (run fresh_agent example_world [(''query'', PStr ''hi'')]) =
     emit [GetInstanceObj (PStr ''stub_planner''),
           PlannerInvoke example_model
             [(''chat_history'', PStr ''''), (''background'', PStr ''''),
              (''image_urls'', PList []), (''date'', PStr ''2024-03-12'')]
             (InputObject [(''query'', PStr ''hi'')])] example_world"
proof -
  let ?kw = "[(''query'', PStr ''hi'')]"
  let ?ai = "[(''chat_history'', PStr ''''), (''background'', PStr ''''),
              (''image_urls'', PList []), (''date'', PStr ''2024-03-12'')]"
  have 0: "standard_fields example_world (InputObject ?kw) = ?ai"
    by (simp add: example_defs model_defs)
  have 1: "parse_input fresh_agent (InputObject ?kw)
             (standard_fields example_world (InputObject ?kw)) =
           Inr (?ai, PDict [(''input'', PStr ''hi'')])"
    by (simp add: example_defs model_defs)
  have 2: "snd (run fresh_agent example_world ?kw) =
             emit [GetInstanceObj (PStr ''stub_planner''),
                   PlannerInvoke example_model ?ai (InputObject ?kw)] example_world"
    by (simp add: example_defs model_defs)
  from pre_parse_input_ignores_returned[OF 1] 2 show ?thesis
    by simp
qed

end
